theory Spec2Isabelle
  imports Complex_Main
begin

section \<open>Data model of \<^verbatim>\<open>library_manager.py\<close>\<close>

text \<open>
  A Python \<^verbatim>\<open>str\<close> is a sequence of Unicode code points, so it is modelled as a list of
  natural numbers; \<open>ascii\<close> embeds an ASCII literal.
\<close>

type_synonym pystr = "nat list"

definition ascii :: "string \<Rightarrow> pystr" where
  "ascii s = map of_char s"

text \<open>
  A calendar date (\<^verbatim>\<open>datetime.date\<close>) is modelled by its day number
  (\<^verbatim>\<open>date.toordinal()\<close>), so that \<^verbatim>\<open>d + timedelta(days=1)\<close> is \<open>d + 1\<close>.
  The bounds of Python's date type (years 1 to 9999) are not modelled.
\<close>

type_synonym date = int

text \<open>
  One entry of \<^verbatim>\<open>self.library\<close>: the dictionary built by \<^verbatim>\<open>add_book\<close>, one field per key.
  The key \<^verbatim>\<open>"id"\<close> is the field \<open>book_id\<close> and \<^verbatim>\<open>"notes"\<close> the field \<open>book_notes\<close>.
\<close>

record book =
  book_id :: int
  title :: pystr
  author :: pystr
  year :: int
  genre :: pystr
  read :: bool
  rating :: "real option"
  book_notes :: pystr
  added_date :: pystr
  progress :: int
  cover_image :: "pystr option"

text \<open>
  A book as it stands in \<^verbatim>\<open>library.json\<close> before \<^verbatim>\<open>_load_library\<close> defaults the keys that
  may be missing: \<open>None\<close> in \<open>raw_notes\<close>, \<open>raw_progress\<close> and \<open>raw_cover_image\<close> is an
  absent key.
\<close>

record raw_book =
  raw_id :: int
  raw_title :: pystr
  raw_author :: pystr
  raw_year :: int
  raw_genre :: pystr
  raw_read :: bool
  raw_rating :: "real option"
  raw_notes :: "pystr option"
  raw_added_date :: pystr
  raw_progress :: "int option"
  raw_cover_image :: "pystr option option"

text \<open>
  \<^verbatim>\<open>self.user_data\<close>. The key \<^verbatim>\<open>"last_reading_date"\<close> holds \<^verbatim>\<open>None\<close> or the ISO text that
  \<^verbatim>\<open>date.isoformat\<close> wrote and \<^verbatim>\<open>datetime.fromisoformat\<close> reads back; the model keeps the
  date itself.
\<close>

record user_data =
  reading_streak :: int
  last_reading_date :: "date option"
  monthly_goal :: int
  books_read_this_month :: int
  month :: int

text \<open>
  A call of \<^verbatim>\<open>json.dump\<close> by \<^verbatim>\<open>_save_library\<close> or \<^verbatim>\<open>_save_user_data\<close>, with the value
  handed to it.
\<close>

datatype file_write = LibraryWrite "book list" | UserDataWrite user_data

text \<open>
  The \<^verbatim>\<open>LibraryManager\<close> object, together with the persistence writes it has issued so
  far, oldest first.
\<close>

record manager =
  library :: "book list"
  user_data :: user_data
  writes :: "file_write list"

section \<open>Constants\<close>

text \<open>
  \<^verbatim>\<open>VALID_YEARS = range(1000, datetime.now().year + 1)\<close>, where \<open>cy\<close> is the calendar year
  read when the module is loaded; \<open>VALID_YEARS cy y\<close> is \<^verbatim>\<open>y in VALID_YEARS\<close>.
\<close>

definition VALID_YEARS :: "int \<Rightarrow> int \<Rightarrow> bool" where
  "VALID_YEARS cy y \<longleftrightarrow> 1000 \<le> y \<and> y < cy + 1"

text \<open>
  The table \<^verbatim>\<open>ACHIEVEMENTS\<close> in its declared order (a Python dict iterates in insertion
  order): name, the \<^verbatim>\<open>"books"\<close> threshold, and the \<^verbatim>\<open>"icon"\<close> (one code point each:
  U+1F3C6, U+1F41B, U+1F4DA).
\<close>

definition ACHIEVEMENTS :: "(pystr \<times> nat \<times> pystr) list" where
  "ACHIEVEMENTS =
     [(ascii ''Novice Reader'', 5, [0x1F3C6]),
      (ascii ''Book Worm'', 20, [0x1F41B]),
      (ascii ''Literary Master'', 50, [0x1F4DA])]"

section \<open>Strings\<close>

text \<open>
  \<^verbatim>\<open>str.isspace\<close> on one code point: the Unicode white space that \<^verbatim>\<open>str.strip()\<close>
  removes.
\<close>

definition py_isspace :: "nat \<Rightarrow> bool" where
  "py_isspace c \<longleftrightarrow>
     (0x09 \<le> c \<and> c \<le> 0x0D) \<or> (0x1C \<le> c \<and> c \<le> 0x20) \<or> c = 0x85 \<or> c = 0xA0 \<or>
     c = 0x1680 \<or> (0x2000 \<le> c \<and> c \<le> 0x200A) \<or> c = 0x2028 \<or> c = 0x2029 \<or>
     c = 0x202F \<or> c = 0x205F \<or> c = 0x3000"

definition strip :: "pystr \<Rightarrow> pystr" where
  "strip s = rev (dropWhile py_isspace (rev (dropWhile py_isspace s)))"

section \<open>Persistence\<close>

text \<open>
  \<^verbatim>\<open>_load_library\<close>: \<open>None\<close> is a missing file, malformed JSON or JSON that is not a list;
  otherwise each book gets the defaults of the three \<^verbatim>\<open>setdefault\<close> calls.
\<close>

definition setdefaults :: "raw_book \<Rightarrow> book" where
  "setdefaults r =
     \<lparr>book_id = raw_id r, title = raw_title r, author = raw_author r, year = raw_year r,
      genre = raw_genre r, read = raw_read r, rating = raw_rating r,
      book_notes = (case raw_notes r of None \<Rightarrow> [] | Some n \<Rightarrow> n),
      added_date = raw_added_date r,
      progress = (case raw_progress r of None \<Rightarrow> 0 | Some p \<Rightarrow> p),
      cover_image = (case raw_cover_image r of None \<Rightarrow> None | Some c \<Rightarrow> c)\<rparr>"

definition load_library :: "raw_book list option \<Rightarrow> book list" where
  "load_library file = (case file of None \<Rightarrow> [] | Some data \<Rightarrow> map setdefaults data)"

text \<open>
  \<^verbatim>\<open>_load_user_data\<close>: \<open>None\<close> is a missing or malformed file, which gives the defaults
  with the month read from the clock.
\<close>

definition load_user_data :: "user_data option \<Rightarrow> int \<Rightarrow> user_data" where
  "load_user_data file current_month =
     (case file of
        None \<Rightarrow> \<lparr>reading_streak = 0, last_reading_date = None, monthly_goal = 0,
                 books_read_this_month = 0, month = current_month\<rparr>
      | Some ud \<Rightarrow> ud)"

text \<open>\<^verbatim>\<open>__init__\<close>: both files are loaded; nothing has been written yet.\<close>

definition init :: "raw_book list option \<Rightarrow> user_data option \<Rightarrow> int \<Rightarrow> manager" where
  "init library_file user_data_file current_month =
     \<lparr>library = load_library library_file,
      user_data = load_user_data user_data_file current_month,
      writes = []\<rparr>"

definition save_library :: "manager \<Rightarrow> manager" where
  "save_library m = m\<lparr>writes := writes m @ [LibraryWrite (library m)]\<rparr>"

definition save_user_data :: "manager \<Rightarrow> manager" where
  "save_user_data m = m\<lparr>writes := writes m @ [UserDataWrite (user_data m)]\<rparr>"

section \<open>Operations of \<^verbatim>\<open>LibraryManager\<close>\<close>

text \<open>
  \<^verbatim>\<open>add_book\<close>. \<open>cy\<close> is the year behind \<^verbatim>\<open>VALID_YEARS\<close> and \<open>stamp\<close> the text of
  \<^verbatim>\<open>datetime.now().isoformat()\<close> at the call. A string is true when it is not empty.
\<close>

definition add_book ::
  "int \<Rightarrow> pystr \<Rightarrow> manager \<Rightarrow> pystr \<Rightarrow> pystr \<Rightarrow> int \<Rightarrow> pystr \<Rightarrow> bool \<Rightarrow> real option \<Rightarrow> pystr \<Rightarrow>
     pystr option \<Rightarrow> bool \<times> manager" where
  "add_book cy stamp m title0 author0 year0 genre0 read0 rating0 notes0 cover_image0 =
     (if \<not> (strip title0 \<noteq> [] \<and> strip author0 \<noteq> [] \<and> VALID_YEARS cy year0) then (False, m)
      else
        let b = \<lparr>book_id = int (length (library m)) + 1,
                 title = strip title0,
                 author = strip author0,
                 year = year0,
                 genre = genre0,
                 read = read0,
                 rating = rating0,
                 book_notes = notes0,
                 added_date = stamp,
                 progress = 0,
                 cover_image = cover_image0\<rparr>
        in (True, save_library (m\<lparr>library := library m @ [b]\<rparr>)))"

text \<open>\<^verbatim>\<open>remove_book\<close>: the list comprehension keeps every book with another id.\<close>

definition remove_book :: "manager \<Rightarrow> int \<Rightarrow> bool \<times> manager" where
  "remove_book m bid =
     (let initial_length = length (library m);
          m1 = m\<lparr>library := filter (\<lambda>b. book_id b \<noteq> bid) (library m)\<rparr>
      in if length (library m1) < initial_length then (True, save_library m1)
         else (False, m1))"

text \<open>
  \<^verbatim>\<open>_update_reading_streak\<close>, with \<open>today\<close> the date read from the clock. On the same day
  it returns before the assignment of \<^verbatim>\<open>last_reading_date\<close> and before the save.
\<close>

definition update_reading_streak :: "date \<Rightarrow> manager \<Rightarrow> manager" where
  "update_reading_streak today m =
     (let ud = user_data m in
      case last_reading_date ud of
        Some last_date \<Rightarrow>
          if today = last_date then m
          else if today = last_date + 1 then
            save_user_data (m\<lparr>user_data :=
              ud\<lparr>reading_streak := reading_streak ud + 1, last_reading_date := Some today\<rparr>\<rparr>)
          else
            save_user_data (m\<lparr>user_data :=
              ud\<lparr>reading_streak := 1, last_reading_date := Some today\<rparr>\<rparr>)
      | None \<Rightarrow>
          save_user_data (m\<lparr>user_data :=
            ud\<lparr>reading_streak := 1, last_reading_date := Some today\<rparr>\<rparr>))"

text \<open>\<^verbatim>\<open>_update_monthly_goal\<close>, with \<open>current_month\<close> the month read from the clock.\<close>

definition update_monthly_goal :: "int \<Rightarrow> manager \<Rightarrow> manager" where
  "update_monthly_goal current_month m =
     (let ud = user_data m;
          ud1 = (if month ud \<noteq> current_month
                 then ud\<lparr>books_read_this_month := 0, month := current_month\<rparr> else ud);
          ud2 = ud1\<lparr>books_read_this_month := books_read_this_month ud1 + 1\<rparr>
      in save_user_data (m\<lparr>user_data := ud2\<rparr>))"

text \<open>
  The body of the loop of \<^verbatim>\<open>update_progress\<close> for the book whose id matches: the stored
  progress is the clamped value, the test for completion reads the argument \<open>p\<close> itself.
  The flag tells whether the branch that marks the book read was taken.
\<close>

definition update_book :: "book \<Rightarrow> int \<Rightarrow> book \<times> bool" where
  "update_book b p =
     (let b1 = b\<lparr>progress := min 100 (max 0 p)\<rparr>
      in if p = 100 \<and> \<not> read b1 then (b1\<lparr>read := True\<rparr>, True) else (b1, False))"

text \<open>
  The loop of \<^verbatim>\<open>update_progress\<close> over the library: it stops at the first book with the
  id; \<open>None\<close> when it runs through without a match.
\<close>

fun update_first :: "book list \<Rightarrow> int \<Rightarrow> int \<Rightarrow> (book list \<times> bool) option" where
  "update_first [] bid p = None"
| "update_first (b # bs) bid p =
     (if book_id b = bid then
        (case update_book b p of (b', completed) \<Rightarrow> Some (b' # bs, completed))
      else
        (case update_first bs bid p of
           None \<Rightarrow> None
         | Some (bs', completed) \<Rightarrow> Some (b # bs', completed)))"

text \<open>
  \<^verbatim>\<open>update_progress\<close>. \<open>today\<close> and \<open>current_month\<close> are what the two calls of
  \<^verbatim>\<open>datetime.now()\<close> return if the book is completed.
\<close>

definition update_progress :: "date \<Rightarrow> int \<Rightarrow> manager \<Rightarrow> int \<Rightarrow> int \<Rightarrow> bool \<times> manager" where
  "update_progress today current_month m bid p =
     (case update_first (library m) bid p of
        None \<Rightarrow> (False, m)
      | Some (lib', completed) \<Rightarrow>
          let m1 = m\<lparr>library := lib'\<rparr>;
              m2 = (if completed
                    then update_monthly_goal current_month (update_reading_streak today m1)
                    else m1)
          in (True, save_library m2))"

text \<open>
  \<^verbatim>\<open>get_achievements\<close>: the loop over the table appends the label
  \<^verbatim>\<open>f"{icon} {name}"\<close> of each entry whose threshold the number of books reaches.
\<close>

definition label :: "pystr \<Rightarrow> pystr \<Rightarrow> pystr" where
  "label icon name = icon @ ascii '' '' @ name"

fun achievements_loop :: "nat \<Rightarrow> (pystr \<times> nat \<times> pystr) list \<Rightarrow> pystr list \<Rightarrow> pystr list" where
  "achievements_loop total_books [] achieved = achieved"
| "achievements_loop total_books ((name, books, icon) # rest) achieved =
     achievements_loop total_books rest
       (if total_books \<ge> books then achieved @ [label icon name] else achieved)"

definition get_achievements :: "manager \<Rightarrow> pystr list" where
  "get_achievements m = achievements_loop (length (library m)) ACHIEVEMENTS []"

section \<open>Example runs\<close>

text \<open>
  A first run with no files on disk, in November 2026: one unread book is added.
\<close>

definition dune_library :: manager where
  "dune_library =
     snd (add_book 2026 (ascii ''2026-11-04T09:00:00'') (init None None 11)
            (ascii ''Dune'') (ascii ''Herbert'') 1965 (ascii ''Sci-Fi'') False None [] None)"

text \<open>
  Two books are added, the first one is removed, and a third book is added: it gets the
  id 2, which the second book still has.
\<close>

definition reused_id_library :: manager where
  "reused_id_library =
     (let m1 = dune_library;
          m2 = snd (add_book 2026 (ascii ''2026-11-04T09:05:00'') m1
                      (ascii ''Emma'') (ascii ''Austen'') 1815 (ascii ''Fiction'') False None []
                      None);
          m3 = snd (remove_book m2 1);
          m4 = snd (add_book 2026 (ascii ''2026-11-04T09:10:00'') m3
                      (ascii ''Ulysses'') (ascii ''Joyce'') 1922 (ascii ''Fiction'') False None []
                      None)
      in m4)"

text \<open>
  A manager with an empty library whose user data holds the streak \<open>n\<close>, the last
  reading date \<open>last_date\<close> and two books read in October.
\<close>

definition streak_state :: "int \<Rightarrow> date option \<Rightarrow> manager" where
  "streak_state n last_date =
     \<lparr>library = [],
      user_data = \<lparr>reading_streak = n, last_reading_date = last_date, monthly_goal = 0,
                   books_read_this_month = 2, month = 10\<rparr>,
      writes = []\<rparr>"

text \<open>
  A library of \<open>n\<close> books, all read or all unread, as a saved library file could hold.
\<close>

definition shelf :: "nat \<Rightarrow> bool \<Rightarrow> manager" where
  "shelf n r =
     \<lparr>library = map (\<lambda>i. \<lparr>book_id = int i + 1, title = ascii ''T'', author = ascii ''A'',
                            year = 2000, genre = ascii ''Other'', read = r, rating = None,
                            book_notes = [], added_date = [], progress = 0,
                            cover_image = None\<rparr>) [0..<n],
      user_data = load_user_data None 11, writes = []\<rparr>"

section \<open>Auxiliary facts\<close>

lemma library_save_library: "library (save_library m) = library m"
  by (simp add: save_library_def)

lemma library_save_user_data: "library (save_user_data m) = library m"
  by (simp add: save_user_data_def)

lemma user_data_save_library: "user_data (save_library m) = user_data m"
  by (simp add: save_library_def)

lemma user_data_save_user_data: "user_data (save_user_data m) = user_data m"
  by (simp add: save_user_data_def)

lemma library_update_reading_streak: "library (update_reading_streak today m) = library m"
  by (simp add: update_reading_streak_def Let_def library_save_user_data split: option.split)

lemma library_update_monthly_goal: "library (update_monthly_goal cm m) = library m"
  by (simp add: update_monthly_goal_def Let_def library_save_user_data)

lemma update_book_fields:
  "book_id (fst (update_book b p)) = book_id b"
  "title (fst (update_book b p)) = title b"
  "author (fst (update_book b p)) = author b"
  "year (fst (update_book b p)) = year b"
  "genre (fst (update_book b p)) = genre b"
  "rating (fst (update_book b p)) = rating b"
  "book_notes (fst (update_book b p)) = book_notes b"
  "added_date (fst (update_book b p)) = added_date b"
  "cover_image (fst (update_book b p)) = cover_image b"
  by (simp_all add: update_book_def Let_def)

lemma update_book_progress: "progress (fst (update_book b p)) = min 100 (max 0 p)"
  by (simp add: update_book_def Let_def)

lemma update_book_read: "read (fst (update_book b p)) \<longleftrightarrow> read b \<or> p = 100"
  by (auto simp add: update_book_def Let_def)

lemma update_book_completed: "snd (update_book b p) \<longleftrightarrow> p = 100 \<and> \<not> read b"
  by (auto simp add: update_book_def Let_def)

lemma update_first_None: "update_first lib bid p = None \<longleftrightarrow> bid \<notin> book_id ` set lib"
  by (induction lib) (auto split: option.splits prod.splits)

lemma update_first_at:
  "i < length lib \<Longrightarrow> book_id (lib ! i) = bid \<Longrightarrow> \<forall>j<i. book_id (lib ! j) \<noteq> bid \<Longrightarrow>
   update_first lib bid p =
     Some (lib[i := fst (update_book (lib ! i) p)], snd (update_book (lib ! i) p))"
proof (induction lib arbitrary: i)
  case Nil
  then show ?case by simp
next
  case (Cons b bs)
  show ?case
  proof (cases i)
    case 0
    with Cons.prems show ?thesis by (simp split: prod.split)
  next
    case (Suc k)
    with Cons.prems have hd: "book_id b \<noteq> bid" by auto
    from Suc Cons.prems have "k < length bs" "book_id (bs ! k) = bid"
      "\<forall>j<k. book_id (bs ! j) \<noteq> bid" by auto
    from Cons.IH [OF this] hd Suc show ?thesis by simp
  qed
qed

lemma update_progress_at:
  assumes "i < length (library m)" "book_id (library m ! i) = bid"
    "\<forall>j<i. book_id (library m ! j) \<noteq> bid"
  shows "fst (update_progress today cm m bid p) = True"
    and "library (snd (update_progress today cm m bid p)) =
           (library m)[i := fst (update_book (library m ! i) p)]"
  using update_first_at [OF assms, of p]
  by (simp_all add: update_progress_def Let_def library_save_library
      library_update_monthly_goal library_update_reading_streak)

lemmas run_defs = dune_library_def reused_id_library_def add_book_def remove_book_def
  update_progress_def update_book_def update_reading_streak_def update_monthly_goal_def
  init_def load_library_def load_user_data_def save_library_def save_user_data_def
  strip_def py_isspace_def ascii_def VALID_YEARS_def Let_def

section \<open>Progress updates\<close>

text \<open>
  Claim C1 (progress 100 implies read, kept by every operation, also for raw inputs above
  100). The code stores the clamped value but tests the raw argument against 100: on the
  one unread book of \<open>dune_library\<close>, \<^verbatim>\<open>update_progress(1, 150)\<close> succeeds and leaves the
  book with progress 100 and \<^verbatim>\<open>read\<close> false.
\<close>

theorem update_progress_150_unread_at_100:
  "map (\<lambda>b. (book_id b, progress b, read b)) (library dune_library) = [(1, 0, False)] \<and>
   fst (update_progress 739924 11 dune_library 1 150) = True \<and>
   map (\<lambda>b. (book_id b, progress b, read b))
     (library (snd (update_progress 739924 11 dune_library 1 150))) = [(1, 100, False)]"
  by (simp add: run_defs)

text \<open>
  Claim C2 (a clamped value of 100 on an unread book marks it read and raises one
  completion event). For the raw input 150 the clamped value is 100 and the book is unread,
  yet the book stays unread, the user data is untouched and the only write is the one of
  the library.
\<close>

theorem update_progress_150_no_completion:
  "min 100 (max 0 (150::int)) = 100 \<and>
   map read (library dune_library) = [False] \<and>
   map read (library (snd (update_progress 739924 11 dune_library 1 150))) = [False] \<and>
   user_data (snd (update_progress 739924 11 dune_library 1 150)) = user_data dune_library \<and>
   length (writes (snd (update_progress 739924 11 dune_library 1 150))) =
     length (writes dune_library) + 1"
  by (simp add: run_defs)

text \<open>
  Claim C3 (clamping law): when a record with the id exists, \<^verbatim>\<open>update_progress\<close> succeeds
  and the record found under that id afterwards holds \<open>min 100 (max 0 p)\<close>, which lies
  between 0 and 100, for every integer \<open>p\<close>. The record under an id is the one a lookup
  finds, the first in collection order.
\<close>

theorem update_progress_clamps:
  assumes "find (\<lambda>b. book_id b = bid) (library m) = Some b"
  shows "fst (update_progress today cm m bid p) = True \<and>
         (\<exists>b'. find (\<lambda>b. book_id b = bid) (library (snd (update_progress today cm m bid p)))
                 = Some b' \<and>
               progress b' = min 100 (max 0 p) \<and> 0 \<le> progress b' \<and> progress b' \<le> 100)"
proof -
  from assms obtain i where i: "i < length (library m)" "book_id (library m ! i) = bid"
    "\<forall>j<i. book_id (library m ! j) \<noteq> bid"
    by (auto simp: find_Some_iff)
  let ?b' = "fst (update_book (library m ! i) p)"
  let ?lib' = "library (snd (update_progress today cm m bid p))"
  have lib': "?lib' = (library m)[i := ?b']"
    by (rule update_progress_at(2) [OF i])
  have "find (\<lambda>b. book_id b = bid) ?lib' = Some ?b'"
    unfolding lib' find_Some_iff using i
    by (intro exI [of _ i]) (simp add: update_book_fields)
  moreover have "progress ?b' = min 100 (max 0 p)"
    by (rule update_book_progress)
  ultimately show ?thesis
    using update_progress_at(1) [OF i, of today cm p] by auto
qed

theorem update_progress_clamps_witness:
  "find (\<lambda>b. book_id b = 2) (library reused_id_library) \<noteq> None \<and>
   fst (update_progress 739924 11 reused_id_library 2 (- 7)) = True \<and>
   (\<exists>b'. find (\<lambda>b. book_id b = 2)
            (library (snd (update_progress 739924 11 reused_id_library 2 (- 7)))) = Some b' \<and>
          progress b' = 0)"
proof -
  obtain b where b: "find (\<lambda>b. book_id b = 2) (library reused_id_library) = Some b"
    by (simp add: run_defs)
  from update_progress_clamps [OF b, of 739924 11 "- 7"] b show ?thesis
    by auto
qed

section \<open>Streak and monthly goal\<close>

text \<open>
  Claim C4 (streak update on a completion): with no last reading date the streak becomes
  1; on the same day the streak and the date stay as they are; one day after the last
  reading date the streak grows by 1; for any other date, earlier or later, the streak
  is reset to 1; and in every case but the same-day one the last reading date becomes
  today.
\<close>

theorem update_reading_streak_cases:
  "(last_reading_date (user_data m) = None \<longrightarrow>
      reading_streak (user_data (update_reading_streak today m)) = 1) \<and>
   (last_reading_date (user_data m) = Some today \<longrightarrow>
      reading_streak (user_data (update_reading_streak today m)) = reading_streak (user_data m) \<and>
      last_reading_date (user_data (update_reading_streak today m)) =
        last_reading_date (user_data m)) \<and>
   (last_reading_date (user_data m) = Some (today - 1) \<longrightarrow>
      reading_streak (user_data (update_reading_streak today m)) =
        reading_streak (user_data m) + 1) \<and>
   (\<forall>last_date. last_reading_date (user_data m) = Some last_date \<and> today \<noteq> last_date \<and>
        today \<noteq> last_date + 1 \<longrightarrow>
      reading_streak (user_data (update_reading_streak today m)) = 1) \<and>
   (last_reading_date (user_data m) \<noteq> Some today \<longrightarrow>
      last_reading_date (user_data (update_reading_streak today m)) = Some today)"
  by (auto simp add: update_reading_streak_def Let_def user_data_save_user_data
      split: option.split)

theorem update_reading_streak_cases_witness:
  "reading_streak (user_data (update_reading_streak 739924 (streak_state 4 None))) = 1 \<and>
   reading_streak (user_data (update_reading_streak 739924 (streak_state 4 (Some 739924)))) = 4 \<and>
   last_reading_date (user_data (update_reading_streak 739924 (streak_state 4 (Some 739924))))
     = Some 739924 \<and>
   reading_streak (user_data (update_reading_streak 739924 (streak_state 4 (Some 739923)))) = 5 \<and>
   reading_streak (user_data (update_reading_streak 739924 (streak_state 4 (Some 739922)))) = 1 \<and>
   reading_streak (user_data (update_reading_streak 739924 (streak_state 4 (Some 739930)))) = 1 \<and>
   last_reading_date (user_data (update_reading_streak 739924 (streak_state 4 (Some 739930))))
     = Some 739924"
  using update_reading_streak_cases [of "streak_state 4 None" 739924]
    update_reading_streak_cases [of "streak_state 4 (Some 739924)" 739924]
    update_reading_streak_cases [of "streak_state 4 (Some 739923)" 739924]
    update_reading_streak_cases [of "streak_state 4 (Some 739922)" 739924]
    update_reading_streak_cases [of "streak_state 4 (Some 739930)" 739924]
  by (simp add: streak_state_def)

text \<open>
  Claim C5 (monthly counter): after \<^verbatim>\<open>_update_monthly_goal\<close> the stored month is the
  current one; if the stored month differed, the counter is 1 (reset to 0, then
  incremented), otherwise it is one more than before; and the counter and month that a
  completion leaves are the same whatever \<^verbatim>\<open>_update_reading_streak\<close> did just before.
\<close>

theorem update_monthly_goal_rollover:
  "month (user_data (update_monthly_goal cm m)) = cm \<and>
   (month (user_data m) \<noteq> cm \<longrightarrow>
      books_read_this_month (user_data (update_monthly_goal cm m)) = 1) \<and>
   (month (user_data m) = cm \<longrightarrow>
      books_read_this_month (user_data (update_monthly_goal cm m)) =
        books_read_this_month (user_data m) + 1) \<and>
   books_read_this_month
       (user_data (update_monthly_goal cm (update_reading_streak today m))) =
     books_read_this_month (user_data (update_monthly_goal cm m)) \<and>
   month (user_data (update_monthly_goal cm (update_reading_streak today m))) = cm"
  by (auto simp add: update_monthly_goal_def update_reading_streak_def Let_def
      user_data_save_user_data split: option.split)

theorem update_monthly_goal_rollover_witness:
  "books_read_this_month (user_data (update_monthly_goal 11 (streak_state 4 (Some 739922)))) = 1 \<and>
   month (user_data (update_monthly_goal 11 (streak_state 4 (Some 739922)))) = 11 \<and>
   books_read_this_month (user_data (update_monthly_goal 10 (streak_state 4 (Some 739922)))) = 3 \<and>
   books_read_this_month
     (user_data (update_monthly_goal 11
        (update_reading_streak 739924 (streak_state 4 (Some 739922))))) = 1"
  using update_monthly_goal_rollover [of 11 "streak_state 4 (Some 739922)" 739924]
    update_monthly_goal_rollover [of 10 "streak_state 4 (Some 739922)" 739924]
  by (simp add: streak_state_def)

section \<open>Adding and removing books\<close>

text \<open>
  Claim C6 (validation failure): when the title or the author is empty after stripping,
  or the year lies outside 1000 .. \<open>cy\<close>, \<^verbatim>\<open>add_book\<close> returns \<^verbatim>\<open>False\<close> and the manager is
  the one it was given: same library, same user data, no write issued.
\<close>

theorem add_book_rejects_invalid:
  assumes "strip t = [] \<or> strip a = [] \<or> y < 1000 \<or> cy < y"
  shows "add_book cy stamp m t a y g r rt n c = (False, m)"
  using assms by (auto simp add: add_book_def VALID_YEARS_def)

theorem add_book_rejects_invalid_witness:
  "strip (ascii ''   '') = [] \<and>
   add_book 2026 (ascii ''2026-11-04T09:20:00'') dune_library (ascii ''   '') (ascii ''Herbert'')
       1965 (ascii ''Sci-Fi'') False None [] None = (False, dune_library) \<and>
   add_book 2026 (ascii ''2026-11-04T09:20:00'') dune_library (ascii ''Dune'') []
       1965 (ascii ''Sci-Fi'') False None [] None = (False, dune_library) \<and>
   add_book 2026 (ascii ''2026-11-04T09:20:00'') dune_library (ascii ''Dune'') (ascii ''Herbert'')
       999 (ascii ''Sci-Fi'') False None [] None = (False, dune_library) \<and>
   add_book 2026 (ascii ''2026-11-04T09:20:00'') dune_library (ascii ''Dune'') (ascii ''Herbert'')
       2027 (ascii ''Sci-Fi'') False None [] None = (False, dune_library)"
proof -
  have blank: "strip (ascii ''   '') = []" and empty: "strip [] = []"
    by (simp_all add: strip_def ascii_def py_isspace_def)
  show ?thesis
    using blank
      add_book_rejects_invalid [of "ascii ''   ''" "ascii ''Herbert''" 1965 2026
        "ascii ''2026-11-04T09:20:00''" dune_library "ascii ''Sci-Fi''" False None "[]" None]
      add_book_rejects_invalid [of "ascii ''Dune''" "[]" 1965 2026
        "ascii ''2026-11-04T09:20:00''" dune_library "ascii ''Sci-Fi''" False None "[]" None]
      add_book_rejects_invalid [of "ascii ''Dune''" "ascii ''Herbert''" 999 2026
        "ascii ''2026-11-04T09:20:00''" dune_library "ascii ''Sci-Fi''" False None "[]" None]
      add_book_rejects_invalid [of "ascii ''Dune''" "ascii ''Herbert''" 2027 2026
        "ascii ''2026-11-04T09:20:00''" dune_library "ascii ''Sci-Fi''" False None "[]" None]
    by (simp add: empty)
qed

text \<open>
  Claim C7 (successful add): for a valid input \<^verbatim>\<open>add_book\<close> returns \<^verbatim>\<open>True\<close>, the new
  record has the id \<open>length + 1\<close>, which is greater than the number of records, and
  progress 0; it is appended, so it is the last element of the library right after, and
  the library with it is written.
\<close>

theorem add_book_appends:
  assumes "strip t \<noteq> []" and "strip a \<noteq> []" and "1000 \<le> y" and "y \<le> cy"
  shows "\<exists>b. add_book cy stamp m t a y g r rt n c =
               (True, m\<lparr>library := library m @ [b],
                        writes := writes m @ [LibraryWrite (library m @ [b])]\<rparr>) \<and>
             book_id b = int (length (library m)) + 1 \<and>
             int (length (library m)) < book_id b \<and>
             progress b = 0 \<and>
             title b = strip t \<and> author b = strip a \<and> year b = y \<and> genre b = g \<and>
             read b = r \<and> rating b = rt \<and> book_notes b = n \<and> added_date b = stamp \<and>
             cover_image b = c \<and>
             b \<in> set (library (snd (add_book cy stamp m t a y g r rt n c))) \<and>
             last (library (snd (add_book cy stamp m t a y g r rt n c))) = b \<and>
             length (library (snd (add_book cy stamp m t a y g r rt n c))) =
               length (library m) + 1"
  using assms by (simp add: add_book_def VALID_YEARS_def save_library_def Let_def)

theorem add_book_appends_witness:
  "\<exists>b. add_book 2026 (ascii ''2026-11-04T09:20:00'') dune_library (ascii '' Emma '')
          (ascii ''Austen'') 1815 (ascii ''Fiction'') False None [] None =
          (True, dune_library\<lparr>library := library dune_library @ [b],
             writes := writes dune_library @ [LibraryWrite (library dune_library @ [b])]\<rparr>) \<and>
        book_id b = 2 \<and> progress b = 0 \<and> title b = ascii ''Emma''"
proof -
  have t: "strip (ascii '' Emma '') = ascii ''Emma''" and a: "strip (ascii ''Austen'') \<noteq> []"
    by (simp_all add: strip_def ascii_def py_isspace_def)
  have len: "length (library dune_library) = 1"
    by (simp add: run_defs)
  from t have t': "strip (ascii '' Emma '') \<noteq> []" by (simp add: ascii_def)
  from add_book_appends [OF t' a, of 1815 2026 "ascii ''2026-11-04T09:20:00''" dune_library
      "ascii ''Fiction''" False None "[]" None]
  obtain b where b: "add_book 2026 (ascii ''2026-11-04T09:20:00'') dune_library (ascii '' Emma '')
          (ascii ''Austen'') 1815 (ascii ''Fiction'') False None [] None =
          (True, dune_library\<lparr>library := library dune_library @ [b],
             writes := writes dune_library @ [LibraryWrite (library dune_library @ [b])]\<rparr>)"
    "book_id b = int (length (library dune_library)) + 1" "progress b = 0"
    "title b = strip (ascii '' Emma '')"
    by auto
  then show ?thesis using len t by (intro exI [of _ b]) simp
qed

lemma filter_other_ids_length:
  "length (filter (\<lambda>b. book_id b \<noteq> bid) lib) + length (filter (\<lambda>b. book_id b = bid) lib) =
   length lib"
  by (induction lib) auto

lemma filter_same_id_distinct:
  "distinct (map book_id lib) \<Longrightarrow> bid \<in> book_id ` set lib \<Longrightarrow>
   length (filter (\<lambda>b. book_id b = bid) lib) = 1"
  by (induction lib) (auto simp: filter_empty_conv image_iff)

text \<open>
  Claim C8 as stated (removing an id that is present shortens the collection by exactly
  one) fails once an id has been reused: in \<open>reused_id_library\<close> two records carry the id
  2, \<^verbatim>\<open>remove_book(2)\<close> succeeds and removes both.
\<close>

theorem remove_book_reused_id_counterexample:
  "map book_id (library reused_id_library) = [2, 2] \<and>
   fst (remove_book reused_id_library 2) = True \<and>
   length (library reused_id_library) = 2 \<and>
   length (library (snd (remove_book reused_id_library 2))) = 0 \<and>
   length (library (snd (remove_book reused_id_library 2))) \<noteq>
     length (library reused_id_library) - 1"
  by (simp add: run_defs)

text \<open>
  Claim C8, amended: for an id that no record has, \<^verbatim>\<open>remove_book\<close> returns \<^verbatim>\<open>False\<close> and
  leaves the manager as it was; for an id that some record has, it returns \<^verbatim>\<open>True\<close>,
  keeps exactly the records with another id in their order, so the length drops by the
  number of records with that id, which is at least one, and exactly one when the ids of
  the collection are distinct; afterwards no record has that id.
\<close>

theorem remove_book_effect:
  "(bid \<notin> book_id ` set (library m) \<longrightarrow> remove_book m bid = (False, m)) \<and>
   (bid \<in> book_id ` set (library m) \<longrightarrow>
      fst (remove_book m bid) = True \<and>
      library (snd (remove_book m bid)) = filter (\<lambda>b. book_id b \<noteq> bid) (library m) \<and>
      length (library (snd (remove_book m bid))) +
        length (filter (\<lambda>b. book_id b = bid) (library m)) = length (library m) \<and>
      length (library (snd (remove_book m bid))) < length (library m) \<and>
      bid \<notin> book_id ` set (library (snd (remove_book m bid))) \<and>
      (distinct (map book_id (library m)) \<longrightarrow>
         length (library (snd (remove_book m bid))) + 1 = length (library m)))"
proof (cases "bid \<in> book_id ` set (library m)")
  case False
  then have "filter (\<lambda>b. book_id b \<noteq> bid) (library m) = library m"
    by (auto simp: filter_id_conv)
  with False show ?thesis by (simp add: remove_book_def Let_def)
next
  case True
  let ?kept = "filter (\<lambda>b. book_id b \<noteq> bid) (library m)"
  have sum: "length ?kept + length (filter (\<lambda>b. book_id b = bid) (library m)) =
    length (library m)"
    by (rule filter_other_ids_length)
  from True have "filter (\<lambda>b. book_id b = bid) (library m) \<noteq> []"
    by (auto simp: filter_empty_conv)
  with sum have less: "length ?kept < length (library m)"
    by (cases "filter (\<lambda>b. book_id b = bid) (library m)") auto
  have res: "remove_book m bid = (True, save_library (m\<lparr>library := ?kept\<rparr>))"
    using less by (simp add: remove_book_def Let_def)
  have lib: "library (snd (remove_book m bid)) = ?kept"
    by (simp add: res library_save_library)
  have one: "distinct (map book_id (library m)) \<longrightarrow> length ?kept + 1 = length (library m)"
    using filter_same_id_distinct [OF _ True] sum by auto
  from True res lib sum less one show ?thesis by auto
qed

theorem remove_book_effect_witness:
  "remove_book dune_library 7 = (False, dune_library) \<and>
   fst (remove_book dune_library 1) = True \<and>
   length (library (snd (remove_book dune_library 1))) + 1 = length (library dune_library) \<and>
   1 \<notin> book_id ` set (library (snd (remove_book dune_library 1))) \<and>
   fst (remove_book reused_id_library 2) = True \<and>
   length (library (snd (remove_book reused_id_library 2))) + 2 =
     length (library reused_id_library)"
proof -
  have absent: "7 \<notin> book_id ` set (library dune_library)"
    and present: "1 \<in> book_id ` set (library dune_library)"
    and dist: "distinct (map book_id (library dune_library))"
    and present2: "2 \<in> book_id ` set (library reused_id_library)"
    and two: "length (filter (\<lambda>b. book_id b = 2) (library reused_id_library)) = 2"
    by (simp_all add: run_defs)
  from remove_book_effect [of 7 dune_library] absent
  have a: "remove_book dune_library 7 = (False, dune_library)"
    by blast
  from remove_book_effect [of 1 dune_library] present dist
  have b: "fst (remove_book dune_library 1) = True"
    "length (library (snd (remove_book dune_library 1))) + 1 = length (library dune_library)"
    "1 \<notin> book_id ` set (library (snd (remove_book dune_library 1)))"
    by blast+
  from remove_book_effect [of 2 reused_id_library] present2
  have c: "fst (remove_book reused_id_library 2) = True"
    "length (library (snd (remove_book reused_id_library 2))) +
       length (filter (\<lambda>b. book_id b = 2) (library reused_id_library)) =
     length (library reused_id_library)"
    by blast+
  from c(2) have d: "length (library (snd (remove_book reused_id_library 2))) + 2 =
     length (library reused_id_library)"
    unfolding two .
  from a b c(1) d show ?thesis
    by (intro conjI)
qed

section \<open>Achievements\<close>

lemma achievements_loop_table:
  "achievements_loop n ACHIEVEMENTS [] =
     (if 5 \<le> n then [label [0x1F3C6] (ascii ''Novice Reader'')] else []) @
     (if 20 \<le> n then [label [0x1F41B] (ascii ''Book Worm'')] else []) @
     (if 50 \<le> n then [label [0x1F4DA] (ascii ''Literary Master'')] else [])"
  by (simp add: ACHIEVEMENTS_def)

lemma achievements_loop_filter:
  "achievements_loop n table acc =
     acc @ map (\<lambda>(name, books, icon). label icon name)
             (filter (\<lambda>(name, books, icon). books \<le> n) table)"
  by (induction n table acc rule: achievements_loop.induct) auto

text \<open>
  Claim C9 (achievements): the result depends on the number of records only, whether
  they are read or not; it lists the badge of threshold 5 from 5 records on, the one of
  threshold 20 from 20 on and the one of threshold 50 from 50 on, in the order in which
  the table \<open>ACHIEVEMENTS\<close> declares them.
\<close>

theorem get_achievements_thresholds:
  "get_achievements m =
     (if 5 \<le> length (library m) then [label [0x1F3C6] (ascii ''Novice Reader'')] else []) @
     (if 20 \<le> length (library m) then [label [0x1F41B] (ascii ''Book Worm'')] else []) @
     (if 50 \<le> length (library m) then [label [0x1F4DA] (ascii ''Literary Master'')] else []) \<and>
   get_achievements m =
     map (\<lambda>(name, books, icon). label icon name)
       (filter (\<lambda>(name, books, icon). books \<le> length (library m)) ACHIEVEMENTS) \<and>
   (\<forall>m'. length (library m') = length (library m) \<longrightarrow> get_achievements m' = get_achievements m)"
  unfolding get_achievements_def
  using achievements_loop_table [of "length (library m)"]
    achievements_loop_filter [of "length (library m)" ACHIEVEMENTS "[]"]
  by simp

theorem get_achievements_thresholds_witness:
  "get_achievements (shelf 4 True) = [] \<and>
   get_achievements (shelf 5 False) = [label [0x1F3C6] (ascii ''Novice Reader'')] \<and>
   get_achievements (shelf 5 True) = get_achievements (shelf 5 False) \<and>
   get_achievements (shelf 20 False) =
     [label [0x1F3C6] (ascii ''Novice Reader''), label [0x1F41B] (ascii ''Book Worm'')] \<and>
   get_achievements (shelf 50 False) =
     [label [0x1F3C6] (ascii ''Novice Reader''), label [0x1F41B] (ascii ''Book Worm''),
      label [0x1F4DA] (ascii ''Literary Master'')]"
proof -
  have len: "length (library (shelf n r)) = n" for n r
    by (simp add: shelf_def)
  show ?thesis
    using get_achievements_thresholds [of "shelf 4 True"]
      get_achievements_thresholds [of "shelf 5 False"]
      get_achievements_thresholds [of "shelf 5 True"]
      get_achievements_thresholds [of "shelf 20 False"]
      get_achievements_thresholds [of "shelf 50 False"]
    by (simp add: len)
qed

section \<open>Frame of a progress update\<close>

text \<open>
  Claim C10 (frame of \<^verbatim>\<open>update_progress\<close>): when the first record with the id stands at
  position \<open>i\<close>, the call succeeds, the library keeps its length, every record at
  another position is unchanged, and the record at \<open>i\<close> differs from the old one in
  \<open>progress\<close> and \<open>read\<close> at most: its id, title, author, year, genre, rating, notes,
  added date and cover image are the old ones.
\<close>

theorem update_progress_frame:
  assumes "i < length (library m)" and "book_id (library m ! i) = bid"
    and "\<forall>j<i. book_id (library m ! j) \<noteq> bid"
  shows "fst (update_progress today cm m bid p) = True \<and>
         length (library (snd (update_progress today cm m bid p))) = length (library m) \<and>
         (\<forall>j<length (library m). j \<noteq> i \<longrightarrow>
            library (snd (update_progress today cm m bid p)) ! j = library m ! j) \<and>
         library (snd (update_progress today cm m bid p)) ! i =
           (library m ! i)\<lparr>progress := min 100 (max 0 p),
                            read := (read (library m ! i) \<or> p = 100)\<rparr> \<and>
         book_id (library (snd (update_progress today cm m bid p)) ! i) = bid \<and>
         title (library (snd (update_progress today cm m bid p)) ! i) = title (library m ! i) \<and>
         author (library (snd (update_progress today cm m bid p)) ! i) = author (library m ! i) \<and>
         year (library (snd (update_progress today cm m bid p)) ! i) = year (library m ! i) \<and>
         genre (library (snd (update_progress today cm m bid p)) ! i) = genre (library m ! i) \<and>
         rating (library (snd (update_progress today cm m bid p)) ! i) = rating (library m ! i) \<and>
         book_notes (library (snd (update_progress today cm m bid p)) ! i) =
           book_notes (library m ! i) \<and>
         added_date (library (snd (update_progress today cm m bid p)) ! i) =
           added_date (library m ! i) \<and>
         cover_image (library (snd (update_progress today cm m bid p)) ! i) =
           cover_image (library m ! i)"
proof -
  let ?b = "library m ! i"
  have lib': "library (snd (update_progress today cm m bid p)) =
      (library m)[i := fst (update_book ?b p)]"
    by (rule update_progress_at(2) [OF assms])
  have upd: "fst (update_book ?b p) =
      ?b\<lparr>progress := min 100 (max 0 p), read := (read ?b \<or> p = 100)\<rparr>"
    by (cases "read ?b") (auto simp add: update_book_def Let_def)
  show ?thesis
    unfolding lib' upd
    using assms(1,2) update_progress_at(1) [OF assms, of today cm p]
    by simp
qed

theorem update_progress_frame_witness:
  "map title (library (snd (update_progress 739924 11 reused_id_library 2 250))) =
     map title (library reused_id_library) \<and>
   map progress (library (snd (update_progress 739924 11 reused_id_library 2 250))) = [100, 0] \<and>
   library (snd (update_progress 739924 11 reused_id_library 2 250)) ! 1 =
     library reused_id_library ! 1"
proof -
  have pre: "0 < length (library reused_id_library)"
    "book_id (library reused_id_library ! 0) = 2"
    "\<forall>j<0::nat. book_id (library reused_id_library ! j) \<noteq> 2"
    "length (library reused_id_library) = 2"
    "map progress (library reused_id_library) = [0, 0]"
    by (simp_all add: run_defs)
  note frame = update_progress_frame [OF pre(1,2,3), of 739924 11 250]
  let ?lib' = "library (snd (update_progress 739924 11 reused_id_library 2 250))"
  from frame have len: "length ?lib' = 2" and one: "?lib' ! 1 = library reused_id_library ! 1"
    and t0: "title (?lib' ! 0) = title (library reused_id_library ! 0)"
    and p0: "progress (?lib' ! 0) = 100"
    using pre(4) by simp_all
  from len obtain x y where xy: "?lib' = [x, y]"
    by (cases ?lib'; cases "tl ?lib'") auto
  from pre(4) obtain u v where uv: "library reused_id_library = [u, v]"
    by (cases "library reused_id_library"; cases "tl (library reused_id_library)") auto
  from one t0 p0 pre(5) show ?thesis
    unfolding xy uv by simp
qed

section \<open>Progress updates with inputs up to 100\<close>

text \<open>
  What \<^verbatim>\<open>update_progress\<close> does where the raw input and the clamped value agree on 100:
  at the input 100 an unread book is marked read and the streak and the monthly counter
  are updated, in this order, before the library is written; a book that is already read
  only gets its progress stored. \<^verbatim>\<open>add_book\<close>, \<^verbatim>\<open>remove_book\<close> and \<^verbatim>\<open>update_progress\<close> with
  an input up to 100 keep the property that a record with progress 100 is read.
\<close>

lemma update_progress_completes_at_100:
  assumes "i < length (library m)" and "book_id (library m ! i) = bid"
    and "\<forall>j<i. book_id (library m ! j) \<noteq> bid" and "\<not> read (library m ! i)"
  shows "update_progress today cm m bid 100 =
           (True, save_library (update_monthly_goal cm (update_reading_streak today
              (m\<lparr>library := (library m)[i := (library m ! i)\<lparr>progress := 100, read := True\<rparr>]\<rparr>))))"
  using update_first_at [OF assms(1,2,3), of 100] assms(4)
  by (simp add: update_progress_def update_book_def Let_def)

lemma update_progress_read_no_completion:
  assumes "i < length (library m)" and "book_id (library m ! i) = bid"
    and "\<forall>j<i. book_id (library m ! j) \<noteq> bid" and "read (library m ! i)"
  shows "update_progress today cm m bid p =
           (True, save_library
              (m\<lparr>library := (library m)[i := (library m ! i)\<lparr>progress := min 100 (max 0 p)\<rparr>]\<rparr>))"
  using update_first_at [OF assms(1,2,3), of p] assms(4)
  by (simp add: update_progress_def update_book_def Let_def)

lemma update_book_keeps_read_at_100:
  "p \<le> 100 \<Longrightarrow> progress b = 100 \<longrightarrow> read b \<Longrightarrow>
   progress (fst (update_book b p)) = 100 \<longrightarrow> read (fst (update_book b p))"
  by (auto simp add: update_book_def Let_def)

lemma update_first_keeps_read_at_100:
  "update_first lib bid p = Some (lib', c) \<Longrightarrow> p \<le> 100 \<Longrightarrow>
   \<forall>b\<in>set lib. progress b = 100 \<longrightarrow> read b \<Longrightarrow>
   \<forall>b\<in>set lib'. progress b = 100 \<longrightarrow> read b"
proof (induction lib arbitrary: lib')
  case Nil
  then show ?case by simp
next
  case (Cons x xs)
  show ?case
  proof (cases "book_id x = bid")
    case True
    with Cons.prems(1) have "lib' = fst (update_book x p) # xs"
      by (auto split: prod.splits)
    with Cons.prems(2,3) update_book_keeps_read_at_100 [of p x] show ?thesis
      by simp
  next
    case False
    with Cons.prems(1) obtain xs' where xs': "update_first xs bid p = Some (xs', c)"
      and lib': "lib' = x # xs'"
      by (auto split: option.splits prod.splits)
    from Cons.IH [OF xs' Cons.prems(2)] Cons.prems(3) lib' show ?thesis
      by simp
  qed
qed

lemma update_progress_keeps_read_at_100:
  assumes "p \<le> 100" and "\<forall>b\<in>set (library m). progress b = 100 \<longrightarrow> read b"
  shows "\<forall>b\<in>set (library (snd (update_progress today cm m bid p))). progress b = 100 \<longrightarrow> read b"
proof (cases "update_first (library m) bid p")
  case None
  with assms(2) show ?thesis by (simp add: update_progress_def)
next
  case (Some r)
  obtain lib' c where r: "r = (lib', c)" by (cases r)
  from Some r have lib: "library (snd (update_progress today cm m bid p)) = lib'"
    by (simp add: update_progress_def Let_def library_save_library
        library_update_monthly_goal library_update_reading_streak)
  from update_first_keeps_read_at_100 [OF Some [unfolded r] assms] lib show ?thesis
    by simp
qed

lemma add_book_keeps_read_at_100:
  assumes "\<forall>b\<in>set (library m). progress b = 100 \<longrightarrow> read b"
  shows "\<forall>b\<in>set (library (snd (add_book cy stamp m t a y g r rt n c))).
           progress b = 100 \<longrightarrow> read b"
  using assms by (auto simp add: add_book_def Let_def library_save_library)

lemma remove_book_keeps_read_at_100:
  assumes "\<forall>b\<in>set (library m). progress b = 100 \<longrightarrow> read b"
  shows "\<forall>b\<in>set (library (snd (remove_book m bid))). progress b = 100 \<longrightarrow> read b"
  using assms by (auto simp add: remove_book_def Let_def library_save_library)

end
